theory Spec2Isabelle
  imports Complex_Main
begin

section \<open>Numeric model\<close>

text \<open>
  Both notebooks compute with Python floats and NumPy float64 arrays. The embedding reads
  every float as the real number it denotes and every array as a list of reals: rounding,
  overflow and underflow are not part of the model. What Python and NumPy do where real
  arithmetic has no answer is written out as a value of \<open>py_error\<close>:
  \<^item> \<open>ZeroDivisionError\<close>: Python's \<^verbatim>\<open>a / b\<close> on two Python numbers with \<^verbatim>\<open>b == 0\<close> raises;
  \<^item> \<open>ValueError\<close>: \<^verbatim>\<open>np.linspace\<close> with a negative sample count and \<^verbatim>\<open>np.gradient\<close> on fewer
    than two samples raise;
  \<^item> \<open>NonFinite\<close>: no exception. NumPy divides by zero without raising (it warns) and
    yields \<^verbatim>\<open>inf\<close> or \<^verbatim>\<open>nan\<close>, which no real number stands for: the call returns, and the
    arrays it returns hold \<^verbatim>\<open>inf\<close> or \<^verbatim>\<open>nan\<close>.
\<close>

datatype py_error = ZeroDivisionError | ValueError | NonFinite

text \<open>
  Python does not fix the type of a scalar argument. A slider passes a Python float; a
  caller may as well pass a NumPy scalar such as \<^verbatim>\<open>np.float64(0.0)\<close>. A product with a
  NumPy scalar is a NumPy scalar, and a division with a NumPy scalar on either side is
  NumPy's. The two kinds differ only where the divisor is zero.
\<close>

datatype scalar = PyFloat | Float64

definition truediv :: "scalar \<Rightarrow> real \<Rightarrow> real \<Rightarrow> py_error + real option" where
  \<comment> \<open>\<^verbatim>\<open>a / b\<close> on scalars of the given kind; \<open>None\<close> is the \<^verbatim>\<open>inf\<close>, \<^verbatim>\<open>-inf\<close> or \<^verbatim>\<open>nan\<close> that
      NumPy's division by zero yields.\<close>
  "truediv k a b =
     (if b \<noteq> 0 then Inr (Some (a / b))
      else case k of PyFloat \<Rightarrow> Inl ZeroDivisionError | Float64 \<Rightarrow> Inr None)"

definition arange :: "real \<Rightarrow> real \<Rightarrow> real \<Rightarrow> real list" where
  \<comment> \<open>\<^verbatim>\<open>np.arange(start, stop, step)\<close>: \<open>\<lceil>(stop - start) / step\<rceil>\<close> values \<open>start + i * step\<close>,
      none when that count is not positive. The one call passes the constant step 0.01.
      The quotient is the exact one here. NumPy rounds it to float64 before the ceiling,
      which can give one sample more (\<^verbatim>\<open>0.07 / 0.01\<close> evaluates to \<^verbatim>\<open>7.000000000000001\<close>):
      nothing below rests on the number of samples beyond there being at least two.\<close>
  "arange start stop step =
     map (\<lambda>i. start + real i * step) [0 ..< nat \<lceil>(stop - start) / step\<rceil>]"

definition linspace :: "real \<Rightarrow> real \<Rightarrow> int \<Rightarrow> py_error + real list" where
  \<comment> \<open>\<^verbatim>\<open>np.linspace(start, stop, num)\<close> with \<^verbatim>\<open>endpoint=True\<close>: \<^verbatim>\<open>div = num - 1\<close>,
      \<^verbatim>\<open>step = delta / div\<close>, \<^verbatim>\<open>y = arange(0, num) * step + start\<close> (scaled as
      \<^verbatim>\<open>y / div * delta\<close> when the step is zero) and \<^verbatim>\<open>y[-1] = stop\<close> when \<^verbatim>\<open>num > 1\<close>.\<close>
  "linspace start stop num =
     (if num < 0 then Inl ValueError
      else
        let n = nat num;
            div' = num - 1;
            delta = stop - start;
            y = (if div' > 0 then
                   let step = delta / real_of_int div' in
                   if step = 0 then map (\<lambda>i. real i / real_of_int div' * delta + start) [0 ..< n]
                   else map (\<lambda>i. real i * step + start) [0 ..< n]
                 else map (\<lambda>i. real i * delta + start) [0 ..< n])
        in Inr (if num > 1 then y[n - 1 := stop] else y))"

definition gradient :: "real list \<Rightarrow> real \<Rightarrow> py_error + real list" where
  \<comment> \<open>\<^verbatim>\<open>np.gradient(f, dx)\<close> with the default \<^verbatim>\<open>edge_order=1\<close>:
      \<^verbatim>\<open>out[1:-1] = (f[2:] - f[:-2]) / (2. * dx)\<close>, \<^verbatim>\<open>out[0] = (f[1] - f[0]) / dx\<close>,
      \<^verbatim>\<open>out[-1] = (f[-1] - f[-2]) / dx\<close>; fewer than two samples raise.\<close>
  "gradient f dx =
     (let n = length f in
      if n < 2 then Inl ValueError
      else Inr (map (\<lambda>i. if i = 0 then (f ! 1 - f ! 0) / dx
                          else if i = n - 1 then (f ! (n - 1) - f ! (n - 2)) / dx
                          else (f ! (i + 1) - f ! (i - 1)) / (2 * dx)) [0 ..< n]))"

section \<open>Lorentz force: the trajectory generator\<close>

definition q :: real where
  \<comment> \<open>\<^verbatim>\<open>q = 1.6e-19\<close>, charge of the particle (C)\<close>
  "q = 1.6 / 10 ^ 19"

definition m :: real where
  \<comment> \<open>\<^verbatim>\<open>m = 9.11e-31\<close>, mass of the particle (kg)\<close>
  "m = 9.11 / 10 ^ 31"

definition default_t_max :: real where
  "default_t_max = 1 / 10 ^ 6"

definition default_num_points :: int where
  "default_num_points = 500"

definition particle_trajectory ::
  "scalar \<Rightarrow> real \<Rightarrow> real \<Rightarrow> real \<Rightarrow> real \<Rightarrow> int
     \<Rightarrow> py_error + (real list \<times> real list \<times> real list)" where
  \<comment> \<open>\<open>k\<close> is the kind of the scalars \<open>B\<close> and \<open>v_perp\<close>: \<open>PyFloat\<close> when both are Python
      numbers (the sliders' values), \<open>Float64\<close> when one is a NumPy scalar. With a radius
      that is \<^verbatim>\<open>inf\<close> or \<^verbatim>\<open>nan\<close>, every entry of \<^verbatim>\<open>r * np.cos(omega * t)\<close> is.\<close>
  "particle_trajectory k B v_perp v_parallel t_max num_points =
     (case truediv k (m * v_perp) (q * B) of
        Inl e \<Rightarrow> Inl e
      | Inr r \<Rightarrow>
          let omega = q * B / m in
          (case linspace 0 t_max num_points of
             Inl e \<Rightarrow> Inl e
           | Inr t \<Rightarrow>
               (case r of
                  None \<Rightarrow> if t = [] then Inr ([], [], []) else Inl NonFinite
                | Some r \<Rightarrow>
                    let x = map (\<lambda>ti. r * cos (omega * ti)) t;
                        y = map (\<lambda>ti. r * sin (omega * ti)) t;
                        z = map (\<lambda>ti. v_parallel * ti) t
                    in Inr (x, y, z))))"

section \<open>Faraday's law: the EMF generator\<close>

definition dt :: real where
  \<comment> \<open>\<^verbatim>\<open>dt = 0.01\<close>, time step in seconds\<close>
  "dt = 0.01"

definition faraday_t :: "real \<Rightarrow> real list" where
  \<comment> \<open>\<^verbatim>\<open>t = np.arange(0, duration, dt)\<close>\<close>
  "faraday_t duration = arange 0 duration dt"

definition faraday_flux :: "real \<Rightarrow> real \<Rightarrow> real \<Rightarrow> real \<Rightarrow> real \<Rightarrow> real list" where
  \<comment> \<open>The body of \<^verbatim>\<open>faraday_simulation\<close> down to \<^verbatim>\<open>flux = B_field * A\<close>, read for
      \<open>L \<noteq> 0\<close>; what \<open>L = 0\<close> gives is settled in \<open>faraday_simulation\<close>.\<close>
  "faraday_flux v A B0 L duration =
     (let t = faraday_t duration;
          x = map (\<lambda>ti. v * ti) t;
          x0 = L / 2;
          sigma = L / 10;
          B_field = map (\<lambda>xi. B0 * exp (- ((xi - x0) ^ 2) / (2 * sigma ^ 2))) x;
          flux = map (\<lambda>b. b * A) B_field
      in flux)"

definition faraday_simulation ::
  "real \<Rightarrow> real \<Rightarrow> real \<Rightarrow> real \<Rightarrow> real \<Rightarrow> real \<Rightarrow> py_error + (real list \<times> real list \<times> real list)" where
  \<comment> \<open>The source draws \<open>flux\<close> and \<open>emf\<close> against \<open>t\<close> and returns nothing; the model returns
      the three arrays it draws. With \<open>L = 0\<close> the exponent is an array divided by \<^verbatim>\<open>0.0\<close>.\<close>
  "faraday_simulation v A B0 L N duration =
     (let t = faraday_t duration;
          flux = faraday_flux v A B0 L duration
      in case gradient flux dt of
           Inl e \<Rightarrow> Inl e
         | Inr g \<Rightarrow>
             if 2 * (L / 10) ^ 2 = 0 then Inl NonFinite
             else Inr (t, flux, map (\<lambda>gi. - N * gi) g))"

section \<open>Facts about the NumPy primitives\<close>

lemma length_arange: "length (arange start stop step) = nat \<lceil>(stop - start) / step\<rceil>"
  by (simp add: arange_def)

lemma linspace_ok:
  "0 \<le> num \<Longrightarrow> \<exists>ts. linspace start stop num = Inr ts \<and> length ts = nat num"
  by (auto simp add: linspace_def Let_def)

lemma linspace_nth:
  assumes "linspace start stop num = Inr ts" "i < nat num" "2 \<le> num"
  shows "ts ! i = start + real i * (stop - start) / real_of_int (num - 1)"
proof (cases "i = nat num - 1")
  case True
  then have "real i = real_of_int (num - 1)" using assms by auto
  moreover have "ts ! i = stop" using assms True
    by (auto simp add: linspace_def Let_def split: if_splits)
  ultimately show ?thesis using assms by simp
next
  case False
  then show ?thesis using assms
    by (auto simp add: linspace_def Let_def algebra_simps split: if_splits)
qed

lemma linspace_nth_0:
  assumes "linspace start stop num = Inr ts" "1 \<le> num"
  shows "ts ! 0 = start"
  using assms
    by (auto simp add: linspace_def Let_def nth_list_update split: if_splits)

lemma gradient_returns:
  "2 \<le> length f \<Longrightarrow> \<exists>g. gradient f dx = Inr g"
  by (simp add: gradient_def Let_def)

lemma gradient_length:
  "gradient f dx = Inr g \<Longrightarrow> length g = length f \<and> 2 \<le> length f"
  by (auto simp add: gradient_def Let_def split: if_splits)

lemma gradient_nth:
  assumes "gradient f dx = Inr g" "i < length f"
  shows "g ! i = (if i = 0 then (f ! 1 - f ! 0) / dx
                  else if i = length f - 1 then (f ! (length f - 1) - f ! (length f - 2)) / dx
                  else (f ! (i + 1) - f ! (i - 1)) / (2 * dx))"
proof -
  have "g = map (\<lambda>i. if i = 0 then (f ! 1 - f ! 0) / dx
                  else if i = length f - 1 then (f ! (length f - 1) - f ! (length f - 2)) / dx
                  else (f ! (i + 1) - f ! (i - 1)) / (2 * dx)) [0 ..< length f]"
    using assms(1) by (auto simp add: gradient_def Let_def split: if_splits)
  then show ?thesis
    using assms(2) by (simp only: nth_map_upt add_0 minus_nat.diff_0)
qed

lemma gradient_short: "length f < 2 \<Longrightarrow> gradient f dx = Inl ValueError"
  by (simp add: gradient_def)

lemma length_faraday_t: "length (faraday_t duration) = nat \<lceil>duration / dt\<rceil>"
  by (simp add: faraday_t_def length_arange)

lemma nth_faraday_t: "i < length (faraday_t duration) \<Longrightarrow> faraday_t duration ! i = real i * dt"
  by (simp add: faraday_t_def arange_def)

lemma length_faraday_flux: "length (faraday_flux v A B0 L duration) = length (faraday_t duration)"
  by (simp add: faraday_flux_def Let_def)

lemma nth_faraday_flux:
  "i < length (faraday_t duration) \<Longrightarrow>
   faraday_flux v A B0 L duration ! i =
     B0 * exp (- ((v * (faraday_t duration ! i) - L / 2) ^ 2) / (2 * (L / 10) ^ 2)) * A"
  by (simp add: faraday_flux_def Let_def)

section \<open>Facts about the two generators\<close>

lemma particle_trajectory_returns:
  assumes "B \<noteq> 0" "linspace 0 t_max num_points = Inr ts"
  shows "particle_trajectory k B v_perp v_parallel t_max num_points =
           Inr (map (\<lambda>ti. m * v_perp / (q * B) * cos (q * B / m * ti)) ts,
                map (\<lambda>ti. m * v_perp / (q * B) * sin (q * B / m * ti)) ts,
                map (\<lambda>ti. v_parallel * ti) ts)"
  using assms by (simp add: particle_trajectory_def truediv_def q_def Let_def)

lemma faraday_t_two_samples: "dt < duration \<Longrightarrow> 2 \<le> length (faraday_t duration)"
proof -
  assume "dt < duration"
  then have "1 < duration / dt" by (simp add: dt_def)
  then have "1 < \<lceil>duration / dt\<rceil>" by (simp add: less_ceiling_iff)
  then show ?thesis unfolding length_faraday_t by linarith
qed

lemma faraday_t_one_sample: "duration \<le> dt \<Longrightarrow> length (faraday_t duration) < 2"
proof -
  assume "duration \<le> dt"
  then have "duration / dt \<le> 1" by (simp add: dt_def)
  then have "\<lceil>duration / dt\<rceil> \<le> 1" by (simp add: ceiling_le_iff)
  then show ?thesis unfolding length_faraday_t by linarith
qed

lemma faraday_simulation_raises:
  "duration \<le> dt \<Longrightarrow> faraday_simulation v A B0 L N duration = Inl ValueError"
  using faraday_t_one_sample [of duration]
  by (simp add: faraday_simulation_def Let_def gradient_short length_faraday_flux)

lemma faraday_simulation_returns:
  assumes "dt < duration" "L \<noteq> 0"
  shows "\<exists>g. gradient (faraday_flux v A B0 L duration) dt = Inr g
           \<and> faraday_simulation v A B0 L N duration =
               Inr (faraday_t duration, faraday_flux v A B0 L duration, map (\<lambda>gi. - N * gi) g)"
proof -
  have "2 \<le> length (faraday_flux v A B0 L duration)"
    using faraday_t_two_samples [OF assms(1)] by (simp add: length_faraday_flux)
  then obtain g where "gradient (faraday_flux v A B0 L duration) dt = Inr g"
    using gradient_returns by blast
  then show ?thesis
    using assms(2) by (simp add: faraday_simulation_def Let_def)
qed


section \<open>Claims about the trajectory generator\<close>

text \<open>
  C1, as stated, fails: the source has no check for \<open>B = 0\<close>, and called with the NumPy
  scalar zero at the default grid it raises nothing and returns arrays that hold \<^verbatim>\<open>inf\<close>
  and \<^verbatim>\<open>nan\<close>.
\<close>

theorem particle_trajectory_zero_field_nonfinite:
  "particle_trajectory Float64 0 (10 ^ 6) (2 * 10 ^ 5) default_t_max default_num_points
     = Inl NonFinite"
  by (simp add: particle_trajectory_def truediv_def linspace_def Let_def default_num_points_def)

text \<open>
  C1, amended. Called with \<open>B = 0\<close> and Python floats, \<open>particle_trajectory\<close> stops at the
  radius division with Python's ZeroDivisionError, the division's own error, before any
  array is built. Called with \<open>B = 0\<close> and NumPy scalars it raises nothing for the zero
  field: it returns arrays holding \<^verbatim>\<open>inf\<close> or \<^verbatim>\<open>nan\<close> whenever there is at least one sample.
\<close>

theorem particle_trajectory_zero_field:
  "particle_trajectory PyFloat 0 v_perp v_parallel t_max num_points = Inl ZeroDivisionError
   \<and> particle_trajectory Float64 0 v_perp v_parallel t_max num_points =
       (if num_points < 0 then Inl ValueError
        else if num_points = 0 then Inr ([], [], [])
        else Inl NonFinite)"
proof -
  have py: "particle_trajectory PyFloat 0 v_perp v_parallel t_max num_points
              = Inl ZeroDivisionError"
    by (simp add: particle_trajectory_def truediv_def)
  have np: "particle_trajectory Float64 0 v_perp v_parallel t_max num_points =
       (if num_points < 0 then Inl ValueError
        else if num_points = 0 then Inr ([], [], [])
        else Inl NonFinite)"
  proof (cases "0 \<le> num_points")
    case False
    then show ?thesis
      by (simp add: particle_trajectory_def truediv_def linspace_def)
  next
    case True
    then obtain ts where ts: "linspace 0 t_max num_points = Inr ts" "length ts = nat num_points"
      using linspace_ok by blast
    have "(ts = []) = (num_points = 0)" using ts(2) True by auto
    then show ?thesis
      using True by (simp add: particle_trajectory_def truediv_def ts(1))
  qed
  show ?thesis using py np by (rule conjI)
qed

text \<open>
  C5. For \<open>B \<noteq> 0\<close> the generator returns \<open>num_points\<close> samples, and every sample lies on the
  cylinder of radius \<open>r = m * v_perp / (q * B)\<close>: \<open>x\<^sub>i\<^sup>2 + y\<^sub>i\<^sup>2 = r\<^sup>2\<close>.
\<close>

theorem trajectory_on_cylinder:
  assumes "B \<noteq> 0" "0 \<le> num_points"
  shows "\<exists>xs ys zs. particle_trajectory k B v_perp v_parallel t_max num_points = Inr (xs, ys, zs)
           \<and> length xs = nat num_points \<and> length ys = nat num_points \<and> length zs = nat num_points
           \<and> (\<forall>i < nat num_points. (xs ! i) ^ 2 + (ys ! i) ^ 2 = (m * v_perp / (q * B)) ^ 2)"
proof -
  obtain ts where ts: "linspace 0 t_max num_points = Inr ts" "length ts = nat num_points"
    using linspace_ok [OF assms(2)] by blast
  have circle: "(r * cos a) ^ 2 + (r * sin a) ^ 2 = r ^ 2" for r a :: real
  proof -
    have "(r * cos a) ^ 2 + (r * sin a) ^ 2 = r ^ 2 * (cos a) ^ 2 + r ^ 2 * (sin a) ^ 2"
      by (simp only: power_mult_distrib)
    also have "\<dots> = r ^ 2 * ((sin a) ^ 2 + (cos a) ^ 2)"
      by (simp only: distrib_left add.commute)
    also have "\<dots> = r ^ 2"
      by (simp only: sin_cos_squared_add mult_1_right)
    finally show ?thesis .
  qed
  have "\<forall>i < nat num_points.
          (map (\<lambda>ti. m * v_perp / (q * B) * cos (q * B / m * ti)) ts ! i) ^ 2
          + (map (\<lambda>ti. m * v_perp / (q * B) * sin (q * B / m * ti)) ts ! i) ^ 2
          = (m * v_perp / (q * B)) ^ 2"
  proof (intro allI impI)
    fix i assume "i < nat num_points"
    then have i: "i < length ts" using ts(2) by simp
    show "(map (\<lambda>ti. m * v_perp / (q * B) * cos (q * B / m * ti)) ts ! i) ^ 2
          + (map (\<lambda>ti. m * v_perp / (q * B) * sin (q * B / m * ti)) ts ! i) ^ 2
          = (m * v_perp / (q * B)) ^ 2"
      by (simp only: nth_map [OF i] circle)
  qed
  then show ?thesis
    unfolding particle_trajectory_returns [OF assms(1) ts(1)] using ts(2) by simp
qed

theorem trajectory_on_cylinder_witness:
  "(1 / 10 ^ 3 :: real) \<noteq> 0 \<and> 0 \<le> default_num_points \<and>
   (\<exists>xs ys zs. particle_trajectory PyFloat (1 / 10 ^ 3) (10 ^ 6) (2 * 10 ^ 5) default_t_max default_num_points
                  = Inr (xs, ys, zs)
       \<and> length xs = 500 \<and> length ys = 500 \<and> length zs = 500
       \<and> (xs ! 7) ^ 2 + (ys ! 7) ^ 2 = (5.69375 / 10 ^ 3) ^ 2)"
proof -
  have a: "(1 / 10 ^ 3 :: real) \<noteq> 0" and b: "0 \<le> default_num_points"
    by (simp_all add: default_num_points_def)
  have r: "m * 10 ^ 6 / (q * (1 / 10 ^ 3)) = 5.69375 / 10 ^ 3"
    by (simp add: m_def q_def)
  have i: "7 < nat default_num_points" by (simp add: default_num_points_def)
  obtain xs ys zs where
    "particle_trajectory PyFloat (1 / 10 ^ 3) (10 ^ 6) (2 * 10 ^ 5) default_t_max default_num_points
       = Inr (xs, ys, zs)"
    "length xs = nat default_num_points" "length ys = nat default_num_points"
    "length zs = nat default_num_points"
    "\<forall>i < nat default_num_points.
       (xs ! i) ^ 2 + (ys ! i) ^ 2 = (m * 10 ^ 6 / (q * (1 / 10 ^ 3))) ^ 2"
    using trajectory_on_cylinder [OF a b, of PyFloat "10 ^ 6" "2 * 10 ^ 5" default_t_max] by blast
  then show ?thesis
    using a b i unfolding r by (auto simp add: default_num_points_def)
qed

text \<open>
  C6. For \<open>B \<noteq> 0\<close> the z-coordinates are the sample times scaled by \<open>v_parallel\<close> and nothing
  else: \<open>z\<^sub>i = v_parallel * t\<^sub>i\<close>, where the times are those of the uniform grid,
  \<open>t\<^sub>i = i * t_max / (num_points - 1)\<close>.
\<close>

theorem trajectory_z_linear:
  assumes "B \<noteq> 0" "0 \<le> num_points"
  shows "\<exists>ts xs ys zs. linspace 0 t_max num_points = Inr ts
           \<and> particle_trajectory k B v_perp v_parallel t_max num_points = Inr (xs, ys, zs)
           \<and> length ts = nat num_points \<and> length zs = nat num_points
           \<and> (\<forall>i < nat num_points.
                  zs ! i = v_parallel * ts ! i
                  \<and> (2 \<le> num_points \<longrightarrow> ts ! i = real i * t_max / real_of_int (num_points - 1))
                  \<and> (num_points = 1 \<longrightarrow> ts ! i = 0))"
proof -
  obtain ts where ts: "linspace 0 t_max num_points = Inr ts" "length ts = nat num_points"
    using linspace_ok [OF assms(2)] by blast
  have grid: "2 \<le> num_points \<longrightarrow> ts ! i = real i * t_max / real_of_int (num_points - 1)"
    if "i < nat num_points" for i
    using linspace_nth [OF ts(1) that] by simp
  have single: "num_points = 1 \<longrightarrow> ts ! i = 0" if "i < nat num_points" for i
    using linspace_nth_0 [OF ts(1)] that by auto
  have "\<forall>i < nat num_points.
          map (\<lambda>ti. v_parallel * ti) ts ! i = v_parallel * ts ! i
          \<and> (2 \<le> num_points \<longrightarrow> ts ! i = real i * t_max / real_of_int (num_points - 1))
          \<and> (num_points = 1 \<longrightarrow> ts ! i = 0)"
    using ts(2) grid single by simp
  then show ?thesis
    unfolding particle_trajectory_returns [OF assms(1) ts(1)] using ts by simp
qed

theorem trajectory_z_linear_witness:
  "(1 / 10 ^ 3 :: real) \<noteq> 0 \<and> 0 \<le> default_num_points \<and>
   (\<exists>ts xs ys zs. linspace 0 default_t_max default_num_points = Inr ts
       \<and> particle_trajectory PyFloat (1 / 10 ^ 3) (10 ^ 6) (2 * 10 ^ 5) default_t_max default_num_points
            = Inr (xs, ys, zs)
       \<and> length ts = 500 \<and> length zs = 500
       \<and> ts ! 499 = 1 / 10 ^ 6 \<and> zs ! 499 = 2 * 10 ^ 5 * ts ! 499 \<and> zs ! 499 = 0.2)"
proof -
  have a: "(1 / 10 ^ 3 :: real) \<noteq> 0" and b: "0 \<le> default_num_points"
    by (simp_all add: default_num_points_def)
  have i: "499 < nat default_num_points" and n: "2 \<le> default_num_points"
    by (simp_all add: default_num_points_def)
  obtain ts xs ys zs where
    r: "linspace 0 default_t_max default_num_points = Inr ts"
       "particle_trajectory PyFloat (1 / 10 ^ 3) (10 ^ 6) (2 * 10 ^ 5) default_t_max default_num_points
          = Inr (xs, ys, zs)"
       "length ts = nat default_num_points" "length zs = nat default_num_points"
    and s: "\<forall>i < nat default_num_points.
       zs ! i = 2 * 10 ^ 5 * ts ! i
       \<and> (2 \<le> default_num_points \<longrightarrow>
            ts ! i = real i * default_t_max / real_of_int (default_num_points - 1))
       \<and> (default_num_points = 1 \<longrightarrow> ts ! i = 0)"
    using trajectory_z_linear [OF a b, of default_t_max PyFloat "10 ^ 6" "2 * 10 ^ 5"] by blast
  from s i n have z: "zs ! 499 = 2 * 10 ^ 5 * ts ! 499"
    and t: "ts ! 499 = real 499 * default_t_max / real_of_int (default_num_points - 1)"
    by blast+
  have t': "ts ! 499 = 1 / 10 ^ 6"
    unfolding t by (simp add: default_num_points_def default_t_max_def)
  have z': "zs ! 499 = 0.2" unfolding z t' by simp
  show ?thesis
    using a b r z t' z' by (auto simp add: default_num_points_def)
qed

text \<open>
  C7. For \<open>B \<noteq> 0\<close>, \<open>v_parallel \<ge> 0\<close> and \<open>t_max \<ge> 0\<close> the z-coordinates never decrease from
  one sample to the next.
\<close>

theorem trajectory_z_nondecreasing:
  assumes "B \<noteq> 0" "0 \<le> v_parallel" "0 \<le> t_max" "0 \<le> num_points"
  shows "\<exists>xs ys zs. particle_trajectory k B v_perp v_parallel t_max num_points = Inr (xs, ys, zs)
           \<and> length zs = nat num_points
           \<and> (\<forall>i. i + 1 < length zs \<longrightarrow> zs ! i \<le> zs ! (i + 1))"
proof -
  obtain ts where ts: "linspace 0 t_max num_points = Inr ts" "length ts = nat num_points"
    using linspace_ok [OF assms(4)] by blast
  have step: "v_parallel * ts ! i \<le> v_parallel * ts ! (i + 1)" if "i + 1 < length ts" for i
  proof -
    from that ts(2) have n: "2 \<le> num_points" and i: "i < nat num_points" "i + 1 < nat num_points"
      by auto
    have a: "ts ! i = real i * t_max / real_of_int (num_points - 1)"
      using linspace_nth [OF ts(1) i(1) n] by simp
    have b: "ts ! (i + 1) = real (i + 1) * t_max / real_of_int (num_points - 1)"
      using linspace_nth [OF ts(1) i(2) n] by simp
    have "real i * t_max \<le> real (i + 1) * t_max"
      using assms(3) by (simp add: mult_right_mono)
    then have "ts ! i \<le> ts ! (i + 1)"
      unfolding a b using n by (simp add: divide_right_mono)
    then show ?thesis
      using assms(2) by (rule mult_left_mono)
  qed
  have "\<forall>i. i + 1 < length (map (\<lambda>ti. v_parallel * ti) ts) \<longrightarrow>
          map (\<lambda>ti. v_parallel * ti) ts ! i \<le> map (\<lambda>ti. v_parallel * ti) ts ! (i + 1)"
    using step by simp
  then show ?thesis
    unfolding particle_trajectory_returns [OF assms(1) ts(1)] using ts(2) by simp
qed

theorem trajectory_z_nondecreasing_witness:
  "(1 / 10 ^ 3 :: real) \<noteq> 0 \<and> (0::real) \<le> 2 * 10 ^ 5 \<and> 0 \<le> default_t_max
   \<and> 0 \<le> default_num_points \<and>
   (\<exists>xs ys zs. particle_trajectory PyFloat (1 / 10 ^ 3) (10 ^ 6) (2 * 10 ^ 5) default_t_max default_num_points
                  = Inr (xs, ys, zs)
       \<and> length zs = 500 \<and> zs ! 0 \<le> zs ! 1 \<and> zs ! 498 \<le> zs ! 499)"
proof -
  have a: "(1 / 10 ^ 3 :: real) \<noteq> 0" and b: "(0::real) \<le> 2 * 10 ^ 5"
    and c: "0 \<le> default_t_max" and d: "0 \<le> default_num_points"
    by (simp_all add: default_num_points_def default_t_max_def)
  obtain xs ys zs where
    r: "particle_trajectory PyFloat (1 / 10 ^ 3) (10 ^ 6) (2 * 10 ^ 5) default_t_max default_num_points
          = Inr (xs, ys, zs)"
       "length zs = nat default_num_points"
    and s: "\<forall>i. i + 1 < length zs \<longrightarrow> zs ! i \<le> zs ! (i + 1)"
    using trajectory_z_nondecreasing [OF a b c d, of PyFloat "10 ^ 6"] by blast
  have n: "length zs = 500" using r(2) by (simp add: default_num_points_def)
  have "zs ! 0 \<le> zs ! 1" using s [rule_format, of 0] n by simp
  moreover have "zs ! 498 \<le> zs ! 499" using s [rule_format, of 498] n by simp
  ultimately show ?thesis
    using a b c d r(1) n by blast
qed

text \<open>
  C9. For \<open>B \<noteq> 0\<close> the samples are built from the radius \<open>m * v_perp / (q * B)\<close> and the
  angular velocity \<open>q * B / m\<close> with \<open>q = 1.6e-19\<close> and \<open>m = 9.11e-31\<close>; for \<open>B = 1e-3\<close> and
  \<open>v_perp = 1e6\<close> the radius is \<open>5.69375e-3\<close>, within \<open>1e-5\<close> of \<open>5.69e-3\<close>.
\<close>

theorem trajectory_radius_omega:
  assumes "B \<noteq> 0" "0 \<le> num_points"
  shows "q = 1.6 / 10 ^ 19 \<and> m = 9.11 / 10 ^ 31
         \<and> (\<exists>ts xs ys zs. linspace 0 t_max num_points = Inr ts
               \<and> particle_trajectory k B v_perp v_parallel t_max num_points = Inr (xs, ys, zs)
               \<and> length xs = nat num_points \<and> length ys = nat num_points
               \<and> (\<forall>i < nat num_points.
                      xs ! i = m * v_perp / (q * B) * cos (q * B / m * ts ! i)
                      \<and> ys ! i = m * v_perp / (q * B) * sin (q * B / m * ts ! i)))
         \<and> m * 10 ^ 6 / (q * (1 / 10 ^ 3)) = 5.69375 / 10 ^ 3
         \<and> \<bar>m * 10 ^ 6 / (q * (1 / 10 ^ 3)) - 5.69 / 10 ^ 3\<bar> < 1 / 10 ^ 5"
proof -
  obtain ts where ts: "linspace 0 t_max num_points = Inr ts" "length ts = nat num_points"
    using linspace_ok [OF assms(2)] by blast
  have traj: "\<exists>ts xs ys zs. linspace 0 t_max num_points = Inr ts
               \<and> particle_trajectory k B v_perp v_parallel t_max num_points = Inr (xs, ys, zs)
               \<and> length xs = nat num_points \<and> length ys = nat num_points
               \<and> (\<forall>i < nat num_points.
                      xs ! i = m * v_perp / (q * B) * cos (q * B / m * ts ! i)
                      \<and> ys ! i = m * v_perp / (q * B) * sin (q * B / m * ts ! i))"
    unfolding particle_trajectory_returns [OF assms(1) ts(1)] using ts by simp
  have num: "m * 10 ^ 6 / (q * (1 / 10 ^ 3)) = 5.69375 / 10 ^ 3"
    by (simp add: m_def q_def)
  have approx: "\<bar>m * 10 ^ 6 / (q * (1 / 10 ^ 3)) - 5.69 / 10 ^ 3\<bar> < 1 / 10 ^ 5"
    unfolding num by simp
  show ?thesis
    using traj num approx by (simp only: q_def m_def simp_thms)
qed

theorem trajectory_radius_omega_witness:
  "(1 / 10 ^ 3 :: real) \<noteq> 0 \<and> 0 \<le> default_num_points \<and>
   (\<exists>ts xs ys zs. linspace 0 default_t_max default_num_points = Inr ts
       \<and> particle_trajectory PyFloat (1 / 10 ^ 3) (10 ^ 6) (2 * 10 ^ 5) default_t_max default_num_points
            = Inr (xs, ys, zs)
       \<and> length xs = 500 \<and> length ys = 500
       \<and> xs ! 7 = 5.69375 / 10 ^ 3 * cos (q * (1 / 10 ^ 3) / m * ts ! 7)
       \<and> ys ! 7 = 5.69375 / 10 ^ 3 * sin (q * (1 / 10 ^ 3) / m * ts ! 7))
   \<and> \<bar>m * 10 ^ 6 / (q * (1 / 10 ^ 3)) - 5.69 / 10 ^ 3\<bar> < 1 / 10 ^ 5"
proof -
  have a: "(1 / 10 ^ 3 :: real) \<noteq> 0" and b: "0 \<le> default_num_points"
    by (simp_all add: default_num_points_def)
  have i: "7 < nat default_num_points" by (simp add: default_num_points_def)
  note th = trajectory_radius_omega [OF a b, of default_t_max PyFloat "10 ^ 6" "2 * 10 ^ 5"]
  from th have r: "m * 10 ^ 6 / (q * (1 / 10 ^ 3)) = 5.69375 / 10 ^ 3"
    and e: "\<bar>m * 10 ^ 6 / (q * (1 / 10 ^ 3)) - 5.69 / 10 ^ 3\<bar> < 1 / 10 ^ 5"
    by blast+
  from th obtain ts xs ys zs where
    t: "linspace 0 default_t_max default_num_points = Inr ts"
       "particle_trajectory PyFloat (1 / 10 ^ 3) (10 ^ 6) (2 * 10 ^ 5) default_t_max default_num_points
          = Inr (xs, ys, zs)"
       "length xs = nat default_num_points" "length ys = nat default_num_points"
    and s: "\<forall>i < nat default_num_points.
       xs ! i = m * 10 ^ 6 / (q * (1 / 10 ^ 3)) * cos (q * (1 / 10 ^ 3) / m * ts ! i)
       \<and> ys ! i = m * 10 ^ 6 / (q * (1 / 10 ^ 3)) * sin (q * (1 / 10 ^ 3) / m * ts ! i)"
    by blast
  from s i have
    "xs ! 7 = m * 10 ^ 6 / (q * (1 / 10 ^ 3)) * cos (q * (1 / 10 ^ 3) / m * ts ! 7)"
    "ys ! 7 = m * 10 ^ 6 / (q * (1 / 10 ^ 3)) * sin (q * (1 / 10 ^ 3) / m * ts ! 7)"
    by blast+
  then have
    "xs ! 7 = 5.69375 / 10 ^ 3 * cos (q * (1 / 10 ^ 3) / m * ts ! 7)"
    "ys ! 7 = 5.69375 / 10 ^ 3 * sin (q * (1 / 10 ^ 3) / m * ts ! 7)"
    unfolding r by blast+
  moreover have "length xs = 500" "length ys = 500"
    using t(3,4) by (simp_all add: default_num_points_def)
  ultimately show ?thesis
    using a b e t(1,2) by blast
qed

text \<open>
  C10, as stated, fails: with \<open>v_perp = 0\<close> the radius is 0 and the first sample of the
  default call is the origin itself.
\<close>

theorem trajectory_first_sample_at_origin:
  "\<not> isl (particle_trajectory PyFloat (1 / 10 ^ 3) 0 (2 * 10 ^ 5) default_t_max default_num_points)
   \<and> fst (projr (particle_trajectory PyFloat (1 / 10 ^ 3) 0 (2 * 10 ^ 5)
                    default_t_max default_num_points)) ! 0 = 0
   \<and> fst (snd (projr (particle_trajectory PyFloat (1 / 10 ^ 3) 0 (2 * 10 ^ 5)
                         default_t_max default_num_points))) ! 0 = 0
   \<and> snd (snd (projr (particle_trajectory PyFloat (1 / 10 ^ 3) 0 (2 * 10 ^ 5)
                         default_t_max default_num_points))) ! 0 = 0"
proof -
  have a: "(1 / 10 ^ 3 :: real) \<noteq> 0" and b: "0 \<le> default_num_points"
    and c: "1 \<le> default_num_points"
    by (simp_all add: default_num_points_def)
  obtain ts where ts: "linspace 0 default_t_max default_num_points = Inr ts"
      "length ts = nat default_num_points"
    using linspace_ok [OF b] by blast
  have pos: "0 < length ts" using ts(2) c by simp
  have t0: "ts ! 0 = 0" using linspace_nth_0 [OF ts(1) c] .
  show ?thesis
    unfolding particle_trajectory_returns [OF a ts(1)]
    by (simp add: nth_map [OF pos] t0)
qed

text \<open>
  C10, amended. For \<open>B \<noteq> 0\<close> and at least one sample, the first sample is \<open>(r, 0, 0)\<close> with
  \<open>r = m * v_perp / (q * B)\<close>: the path starts on the x-axis at signed distance \<open>r\<close> from the
  origin, which is the origin itself exactly when \<open>v_perp = 0\<close>.
\<close>

theorem trajectory_first_sample:
  assumes "B \<noteq> 0" "1 \<le> num_points"
  shows "\<exists>xs ys zs. particle_trajectory k B v_perp v_parallel t_max num_points = Inr (xs, ys, zs)
           \<and> xs \<noteq> [] \<and> ys \<noteq> [] \<and> zs \<noteq> []
           \<and> xs ! 0 = m * v_perp / (q * B) \<and> ys ! 0 = 0 \<and> zs ! 0 = 0
           \<and> (xs ! 0 = 0) = (v_perp = 0)"
proof -
  have n: "0 \<le> num_points" using assms(2) by simp
  obtain ts where ts: "linspace 0 t_max num_points = Inr ts" "length ts = nat num_points"
    using linspace_ok [OF n] by blast
  have ne: "ts \<noteq> []" using ts(2) assms(2) by auto
  have t0: "ts ! 0 = 0" using linspace_nth_0 [OF ts(1) assms(2)] .
  have pos: "0 < length ts" using ne by simp
  have r: "(m * v_perp / (q * B) = 0) = (v_perp = 0)"
    using assms(1) by (simp add: m_def q_def)
  show ?thesis
    unfolding particle_trajectory_returns [OF assms(1) ts(1)]
    using ne r by (simp add: nth_map [OF pos] t0)
qed

theorem trajectory_first_sample_witness:
  "(1 / 10 ^ 3 :: real) \<noteq> 0 \<and> 1 \<le> default_num_points \<and>
   (\<exists>xs ys zs. particle_trajectory PyFloat (1 / 10 ^ 3) (10 ^ 6) (2 * 10 ^ 5)
                  default_t_max default_num_points = Inr (xs, ys, zs)
       \<and> xs \<noteq> [] \<and> ys \<noteq> [] \<and> zs \<noteq> []
       \<and> xs ! 0 = 5.69375 / 10 ^ 3 \<and> ys ! 0 = 0 \<and> zs ! 0 = 0 \<and> xs ! 0 \<noteq> 0)"
proof -
  have a: "(1 / 10 ^ 3 :: real) \<noteq> 0" and c: "1 \<le> default_num_points"
    by (simp_all add: default_num_points_def)
  have r: "m * 10 ^ 6 / (q * (1 / 10 ^ 3)) = 5.69375 / 10 ^ 3"
    by (simp add: m_def q_def)
  obtain xs ys zs where
    t: "particle_trajectory PyFloat (1 / 10 ^ 3) (10 ^ 6) (2 * 10 ^ 5)
          default_t_max default_num_points = Inr (xs, ys, zs)"
       "xs \<noteq> []" "ys \<noteq> []" "zs \<noteq> []"
       "xs ! 0 = m * 10 ^ 6 / (q * (1 / 10 ^ 3))" "ys ! 0 = 0" "zs ! 0 = 0"
    using trajectory_first_sample [OF a c, of PyFloat "10 ^ 6" "2 * 10 ^ 5" default_t_max]
    by blast
  have x: "xs ! 0 = 5.69375 / 10 ^ 3" using t(5) unfolding r .
  then have "xs ! 0 \<noteq> 0" by simp
  then show ?thesis
    using a c t(1-4,6,7) x by blast
qed

section \<open>Claims about the EMF generator\<close>




text \<open>
  C3, as stated, fails: with \<open>duration = 0.01\<close> the grid has one sample and
  \<^verbatim>\<open>np.gradient\<close> raises, so no EMF sequence is computed for this positive input.
\<close>

theorem faraday_emf_short_duration_raises:
  "faraday_simulation 1 1 1 1 100 0.01 = Inl ValueError"
  by (rule faraday_simulation_raises) (simp add: dt_def)

text \<open>
  C3, amended. For positive inputs with \<open>duration > 0.01\<close> (at least two samples) the EMF
  is \<open>-N\<close> times the gradient of the flux with step \<open>0.01\<close>: one-sided differences at the first
  and last samples, central differences in between.
\<close>

theorem faraday_emf_gradient:
  assumes "0 < v" "0 < A" "0 < B0" "0 < L" "0 < N" "dt < duration"
  shows "\<exists>t flux emf. faraday_simulation v A B0 L N duration = Inr (t, flux, emf)
           \<and> flux = faraday_flux v A B0 L duration
           \<and> 2 \<le> length flux \<and> length emf = length flux
           \<and> emf ! 0 = - N * ((flux ! 1 - flux ! 0) / 0.01)
           \<and> emf ! (length flux - 1) =
               - N * ((flux ! (length flux - 1) - flux ! (length flux - 2)) / 0.01)
           \<and> (\<forall>i. 0 < i \<and> i < length flux - 1 \<longrightarrow>
                  emf ! i = - N * ((flux ! (i + 1) - flux ! (i - 1)) / (2 * 0.01)))"
proof -
  let ?f = "faraday_flux v A B0 L duration"
  have L: "L \<noteq> 0" using assms(4) by simp
  obtain g where g: "gradient ?f dt = Inr g"
    and r: "faraday_simulation v A B0 L N duration =
              Inr (faraday_t duration, ?f, map (\<lambda>gi. - N * gi) g)"
    using faraday_simulation_returns [OF assms(6) L] by blast
  define emf where "emf = map (\<lambda>gi. - N * gi) g"
  have len: "length g = length ?f" "2 \<le> length ?f"
    using gradient_length [OF g] by simp_all
  have pos: "0 < length ?f" and fin: "length ?f - 1 < length ?f" and ne: "length ?f - 1 \<noteq> 0"
    using len(2) by auto
  have scale: "emf ! j = - N * g ! j" if "j < length ?f" for j
    using that len(1) by (simp add: emf_def)
  have first: "emf ! 0 = - N * ((?f ! 1 - ?f ! 0) / 0.01)"
    unfolding scale [OF pos] using gradient_nth [OF g pos] by (simp add: dt_def)
  have last: "emf ! (length ?f - 1) =
      - N * ((?f ! (length ?f - 1) - ?f ! (length ?f - 2)) / 0.01)"
    unfolding scale [OF fin] using gradient_nth [OF g fin] ne by (simp add: dt_def)
  have mid: "\<forall>i. 0 < i \<and> i < length ?f - 1 \<longrightarrow>
      emf ! i = - N * ((?f ! (i + 1) - ?f ! (i - 1)) / (2 * 0.01))"
  proof (intro allI impI)
    fix i assume "0 < i \<and> i < length ?f - 1"
    then have i: "i < length ?f" "i \<noteq> 0" "i \<noteq> length ?f - 1" by auto
    show "emf ! i = - N * ((?f ! (i + 1) - ?f ! (i - 1)) / (2 * 0.01))"
      unfolding scale [OF i(1)] using gradient_nth [OF g i(1)] i(2,3) by (simp add: dt_def)
  qed
  have "length emf = length ?f" using len(1) by (simp add: emf_def)
  with r [folded emf_def] len(2) first last mid show ?thesis by blast
qed

theorem faraday_emf_gradient_witness:
  "(0::real) < 1 \<and> (0::real) < 100 \<and> dt < 2 \<and>
   (\<exists>t flux emf. faraday_simulation 1 1 1 1 100 2 = Inr (t, flux, emf)
       \<and> length flux = 200 \<and> length emf = 200
       \<and> emf ! 0 = - 100 * ((flux ! 1 - flux ! 0) / 0.01)
       \<and> emf ! 199 = - 100 * ((flux ! 199 - flux ! 198) / 0.01)
       \<and> emf ! 50 = - 100 * ((flux ! 51 - flux ! 49) / (2 * 0.01)))"
proof -
  have a: "(0::real) < 1" and b: "(0::real) < 100" and c: "dt < 2"
    by (simp_all add: dt_def)
  obtain t flux emf where
    r: "faraday_simulation 1 1 1 1 100 2 = Inr (t, flux, emf)"
    and f: "flux = faraday_flux 1 1 1 1 2" "length emf = length flux"
    and e0: "emf ! 0 = - 100 * ((flux ! 1 - flux ! 0) / 0.01)"
    and e1: "emf ! (length flux - 1) =
               - 100 * ((flux ! (length flux - 1) - flux ! (length flux - 2)) / 0.01)"
    and s: "\<forall>i. 0 < i \<and> i < length flux - 1 \<longrightarrow>
               emf ! i = - 100 * ((flux ! (i + 1) - flux ! (i - 1)) / (2 * 0.01))"
    using faraday_emf_gradient [OF a a a a b c] by blast
  have n: "length flux = 200"
    unfolding f(1) by (simp add: length_faraday_flux length_faraday_t dt_def)
  have "emf ! 199 = - 100 * ((flux ! 199 - flux ! 198) / 0.01)"
    using e1 unfolding n by simp
  moreover have "emf ! 50 = - 100 * ((flux ! 51 - flux ! 49) / (2 * 0.01))"
    using s [rule_format, of 50] unfolding n by simp
  moreover have "length emf = 200" using f(2) n by simp
  ultimately show ?thesis
    using a b c r n e0 by blast
qed

text \<open>
  C4. For positive inputs, if the grid has a sample at time \<open>L / (2 * v)\<close>, the magnet is
  centred there (\<open>v * t = L / 2\<close>) and the flux of the waveform at that sample is \<open>B0 * A\<close>.
  With every parameter 1 and 100 turns, sample 50 is at 0.5 s and its flux is 1.
\<close>

theorem faraday_flux_peak:
  assumes "0 < v" "0 < A" "0 < B0" "0 < L" "0 < duration"
    and "i < length (faraday_t duration)" "faraday_t duration ! i = L / (2 * v)"
  shows "\<exists>t flux emf. faraday_simulation v A B0 L N duration = Inr (t, flux, emf)
           \<and> i < length flux \<and> t ! i = L / (2 * v) \<and> v * t ! i = L / 2 \<and> flux ! i = B0 * A"
proof -
  have L: "L \<noteq> 0" using assms(4) by simp
  have centred: "v * (faraday_t duration ! i) = L / 2"
    using assms(1) by (simp add: assms(7))
  have "i \<noteq> 0"
  proof
    assume "i = 0"
    then have "faraday_t duration ! i = 0" using nth_faraday_t [OF assms(6)] by simp
    then show False using assms(1,4,7) by simp
  qed
  then have "1 < length (faraday_t duration)" using assms(6) by simp
  then have "1 < \<lceil>duration / dt\<rceil>" by (simp add: length_faraday_t)
  then have "1 < duration / dt" by (simp add: less_ceiling_iff)
  then have d: "dt < duration" by (simp add: dt_def)
  obtain g where r: "faraday_simulation v A B0 L N duration =
              Inr (faraday_t duration, faraday_flux v A B0 L duration, map (\<lambda>gi. - N * gi) g)"
    using faraday_simulation_returns [OF d L] by blast
  have "faraday_flux v A B0 L duration ! i = B0 * A"
    using nth_faraday_flux [OF assms(6), of v A B0 L] by (simp add: centred)
  then show ?thesis
    unfolding r using assms(6,7) centred by (simp add: length_faraday_flux)
qed

theorem faraday_flux_peak_witness:
  "(0::real) < 1 \<and> (0::real) < 2 \<and> 50 < length (faraday_t 2) \<and> faraday_t 2 ! 50 = 1 / (2 * 1) \<and>
   (\<exists>t flux emf. faraday_simulation 1 1 1 1 100 2 = Inr (t, flux, emf)
           \<and> 50 < length flux \<and> t ! 50 = 0.5 \<and> flux ! 50 = 1)"
proof -
  have a: "(0::real) < 1" and b: "(0::real) < 2" by simp_all
  have c: "50 < length (faraday_t 2)" by (simp add: length_faraday_t dt_def)
  have d: "faraday_t 2 ! 50 = 1 / (2 * 1)" using nth_faraday_t [OF c] by (simp add: dt_def)
  show ?thesis
    using faraday_flux_peak [OF a a a a b c d, of 100] a b c d by simp
qed

end
